theory Spec2Isabelle
  imports Complex_Main
begin

section \<open>Data model of api.js\<close>

text \<open>
  The module keeps two variables in memory (\<open>currentUser\<close>, \<open>authListeners\<close>), three
  JSON-encoded lists in localStorage (\<open>po_users\<close>, \<open>po_records\<close>, \<open>po_notifications\<close>)
  and one marker in sessionStorage (\<open>po_current_uid\<close>). Every access to a list is
  \<open>JSON.parse(localStorage.getItem(KEY) || '[]')\<close> followed, after a change, by
  \<open>localStorage.setItem(KEY, JSON.stringify(list))\<close>. The model holds each list as
  \<open>JSON.parse\<close> returns it, an absent key being the empty list: what enters a list is
  stored as the decoding of its encoding. The users, the notifications and all the
  fields of a record but \<open>meta_json\<close> are made of strings, booleans, \<open>null\<close> and lists of
  strings by the code itself, and these are decoded as they were written; \<open>meta_json\<close>
  comes from the caller and goes through \<open>JSON_stringify\<close> and \<open>JSON_parse\<close> below when
  the record is written.
\<close>

text \<open>
  The values a caller can put in a payload. \<open>VNum x\<close> is the finite number of value
  \<open>x\<close> (zero is \<open>+0\<close>, \<open>-0\<close> is \<open>VNegZero\<close>), \<open>VDate t\<close> a valid \<open>Date\<close> whose
  \<open>toISOString()\<close> is \<open>t\<close>; a function or a symbol is treated by \<open>JSON.stringify\<close> as
  \<open>undefined\<close> is. \<open>VObj\<close> lists the own properties of a plain object in their order of
  enumeration, each name once.
\<close>

datatype js_value =
    VUndefined
  | VNull
  | VBool bool
  | VNum rat
  | VNaN
  | VInfinity
  | VNegInfinity
  | VNegZero
  | VStr string
  | VDate string
  | VArr "js_value list"
  | VObj "(string \<times> js_value) list"

text \<open>
  A JSON text, as \<open>JSON.stringify\<close> writes it and \<open>JSON.parse\<close> reads it, by its syntax
  tree: the characters written are fixed by the tree, so that two values with the same
  tree have the same text, byte for byte. \<open>JNum x\<close> is the numeral that \<open>JSON.stringify\<close>
  writes for the number of value \<open>x\<close>, which \<open>JSON.parse\<close> reads as that number (for a
  finite number \<open>x\<close> other than \<open>-0\<close>, \<open>ToNumber(ToString(x))\<close> is \<open>x\<close>).
\<close>

datatype json =
    JNull
  | JBool bool
  | JNum rat
  | JStr string
  | JArr "json list"
  | JObj "(string \<times> json) list"

text \<open>A user object \<open>{ id, email, password, displayName }\<close>.\<close>

record user =
  u_id :: string
  u_email :: string
  u_password :: string
  u_displayName :: string

text \<open>
  The argument of \<open>savePoRecord\<close> without the blob: \<open>{ meta, items, attachments, clauses }\<close>.
  \<open>meta\<close> is the object of the form's text fields, read by name; the other three parts
  are any values, stored and never read.
\<close>

record meta_payload =
  meta :: "(string \<times> string) list"
  items :: js_value
  attachments :: js_value
  clauses :: js_value

text \<open>
  A stored record. \<open>owner_uid\<close> is \<open>None\<close> when the property is \<open>undefined\<close>
  (JSON.stringify then leaves it out). A timestamp is the text of
  \<open>new Date().toISOString()\<close>.
\<close>

record po_record =
  r_id :: string
  owner_uid :: "string option"
  created_at :: string
  updated_at :: string
  status :: string
  title :: string
  po_number :: string
  summary :: string
  meta_json :: meta_payload
  assignees :: "string list"
  fileBase64 :: "string option"

text \<open>A notification; \<open>n_payload\<close> is \<open>{ status }\<close> or \<open>{}\<close>, as a list of its properties.\<close>

record notification =
  n_id :: string
  to_uid :: string
  from_uid :: string
  n_type :: string
  po_id :: string
  n_created_at :: string
  n_read :: bool
  n_payload :: "(string \<times> string) list"

text \<open>
  The whole state. \<open>supa\<close> tells whether the remote client was set up by \<open>init\<close>.
  A listener is known by a number; \<open>listener_log\<close> lists the calls made to listeners,
  each with the listener and the argument it was given (a listener is taken to return
  normally and to leave the state alone).
\<close>

record state =
  supa :: bool
  currentUser :: "user option"
  authListeners :: "nat list"
  listener_log :: "(nat \<times> user option) list"
  po_users :: "user list"
  po_records :: "po_record list"
  po_notifications :: "notification list"
  po_current_uid :: "string option"

text \<open>
  Errors thrown (\<open>throw new Error(...)\<close>): \<open>AuthRequired\<close> for the two messages
  "you must sign in" and "sign-in required", \<open>UserNotFound\<close> and \<open>RecordNotFound\<close> for
  the messages of \<open>addAssignee\<close>, \<open>FileReadError\<close> for the rejection by
  \<open>reader.onerror\<close>, \<open>TypeError\<close> for a call of \<open>localeCompare\<close> on the number 0.
  Errors returned in \<open>{ error: { message } }\<close> by signUp and signIn: \<open>EmailInUse\<close>
  ("the e-mail address is already used") and \<open>InvalidLogin\<close> ("user not found or wrong
  password").
\<close>

datatype error = AuthRequired | UserNotFound | RecordNotFound | FileReadError | TypeError

datatype auth_error = EmailInUse | InvalidLogin

text \<open>
  What a call does: it returns a value, it throws, or it takes the branch \<open>if (supa)\<close>,
  whose result is the remote service's and is not modelled (\<open>Delegated\<close>; the local
  lists are not touched on that branch).
\<close>

datatype 'a outcome = Returned 'a | Threw error | Delegated

text \<open>
  The blob given to savePoRecord: absent, or read by FileReader with the base64 text
  of its data URL as result, or with an error.
\<close>

datatype file_blob = NoBlob | Blob string | UnreadableBlob

section \<open>Helpers\<close>

text \<open>
  \<open>uuidv4\<close>: every \<open>x\<close> and \<open>y\<close> of the template is replaced by a hexadecimal digit,
  from \<open>r = (Math.random() * 16) | 0\<close>, a number from 0 to 15. The draws are the
  argument \<open>rnd\<close>: the k-th replaced character uses \<open>rnd k mod 16\<close>.
\<close>

definition hex_digit :: "nat \<Rightarrow> char" where
  "hex_digit v = ''0123456789abcdef'' ! v"

fun uuid_replace :: "(nat \<Rightarrow> nat) \<Rightarrow> nat \<Rightarrow> string \<Rightarrow> string" where
  "uuid_replace rnd k [] = []"
| "uuid_replace rnd k (c # cs) =
     (if c = CHR ''x'' \<or> c = CHR ''y'' then
        (let r = rnd k mod 16;
             v = (if c = CHR ''x'' then r else or (and r 3) 8)
         in hex_digit v # uuid_replace rnd (Suc k) cs)
      else c # uuid_replace rnd k cs)"

definition uuidv4 :: "(nat \<Rightarrow> nat) \<Rightarrow> string" where
  "uuidv4 rnd = uuid_replace rnd 0 ''xxxxxxxx-xxxx-4xxx-yxxx-xxxxxxxxxxxx''"

text \<open>\<open>a || b\<close> on strings: the empty string is falsy.\<close>

definition js_or :: "string \<Rightarrow> string \<Rightarrow> string" where
  "js_or a b = (if a = [] then b else a)"

text \<open>\<open>meta.name\<close> under \<open>|| ''\<close>: a missing property reads as the empty string.\<close>

definition get_field :: "(string \<times> string) list \<Rightarrow> string \<Rightarrow> string" where
  "get_field m k = (case map_of m k of None \<Rightarrow> [] | Some v \<Rightarrow> v)"

text \<open>
  \<open>currentUser?.id || currentUser?.user?.id\<close>: a local user object has no property
  \<open>user\<close>, so that a falsy id gives \<open>undefined\<close>.
\<close>

definition id_of :: "user \<Rightarrow> string option" where
  "id_of u = (if u_id u = [] then None else Some (u_id u))"

text \<open>
  \<open>xs.find(p)\<close> is \<open>find p xs\<close>. The object found is changed in place and the list
  written back: the first element that satisfies \<open>p\<close> is replaced.
\<close>

fun update_first :: "('a \<Rightarrow> bool) \<Rightarrow> ('a \<Rightarrow> 'a) \<Rightarrow> 'a list \<Rightarrow> 'a list" where
  "update_first p f [] = []"
| "update_first p f (x # xs) = (if p x then f x # xs else x # update_first p f xs)"

text \<open>\<open>Array.from(new Set(xs))\<close>: the elements in the order of their first occurrence.\<close>

definition array_from_set :: "'a list \<Rightarrow> 'a list" where
  "array_from_set xs = fold (\<lambda>x s. if x \<in> set s then s else s @ [x]) xs []"

text \<open>\<open>authListeners.forEach(fn => fn(currentUser))\<close>.\<close>

definition fire_listeners :: "state \<Rightarrow> state" where
  "fire_listeners st =
     st\<lparr>listener_log := listener_log st @ map (\<lambda>fn. (fn, currentUser st)) (authListeners st)\<rparr>"

text \<open>
  \<open>xs.sort(cmp)\<close> with a comparator that may throw. The sort is stable; it is modelled
  as an insertion sort, \<open>cmp a b \<le> 0\<close> keeping \<open>a\<close> before \<open>b\<close>. Which pairs are
  compared, and which element of a pair is \<open>a\<close>, is the engine's choice, and with it
  whether a comparison that throws is reached: on a list with a record whose
  \<open>updated_at\<close> is falsy the engine may throw where this sort does not, and the reverse.
  The facts below are about sorts in which no comparison throws.
\<close>

fun insert_by :: "('a \<Rightarrow> 'a \<Rightarrow> error + int) \<Rightarrow> 'a \<Rightarrow> 'a list \<Rightarrow> error + 'a list" where
  "insert_by cmp x [] = Inr [x]"
| "insert_by cmp x (y # ys) =
     (case cmp x y of
        Inl e \<Rightarrow> Inl e
      | Inr v \<Rightarrow>
          if v \<le> 0 then Inr (x # y # ys)
          else (case insert_by cmp x ys of Inl e \<Rightarrow> Inl e | Inr zs \<Rightarrow> Inr (y # zs)))"

fun sort_by :: "('a \<Rightarrow> 'a \<Rightarrow> error + int) \<Rightarrow> 'a list \<Rightarrow> error + 'a list" where
  "sort_by cmp [] = Inr []"
| "sort_by cmp (x # xs) =
     (case sort_by cmp xs of Inl e \<Rightarrow> Inl e | Inr ys \<Rightarrow> insert_by cmp x ys)"

text \<open>
  The comparator of fetchMyRecords,
  \<open>(a, b) => (b.updated_at || 0).localeCompare(a.updated_at || 0)\<close>.
  \<open>localeCompare\<close> is the host's and is the parameter \<open>lc\<close>; the number 0 has no such
  method (TypeError), and as an argument it is converted to the string "0".
\<close>

definition cmp_updated :: "(string \<Rightarrow> string \<Rightarrow> int) \<Rightarrow> po_record \<Rightarrow> po_record \<Rightarrow> error + int" where
  "cmp_updated lc a b =
     (if updated_at b = [] then Inl TypeError
      else Inr (lc (updated_at b) (if updated_at a = [] then ''0'' else updated_at a)))"

section \<open>JSON.stringify and JSON.parse\<close>

text \<open>
  \<open>JSON.stringify(value)\<close>, with no replacer and no indentation. The result \<open>None\<close> is
  \<open>undefined\<close>: nothing is written for the value. A number that is not finite is
  written \<open>null\<close>, \<open>-0\<close> is written \<open>0\<close>, a date is written as the string its \<open>toJSON()\<close>
  gives; in an array, \<open>null\<close> is written for an element that has no text; in an object,
  a property whose value has no text is left out.
\<close>

fun JSON_stringify :: "js_value \<Rightarrow> json option"
  and stringify_elements :: "js_value list \<Rightarrow> json list"
  and stringify_properties :: "(string \<times> js_value) list \<Rightarrow> (string \<times> json) list" where
  "JSON_stringify VUndefined = None"
| "JSON_stringify VNull = Some JNull"
| "JSON_stringify (VBool b) = Some (JBool b)"
| "JSON_stringify (VNum x) = Some (JNum x)"
| "JSON_stringify VNaN = Some JNull"
| "JSON_stringify VInfinity = Some JNull"
| "JSON_stringify VNegInfinity = Some JNull"
| "JSON_stringify VNegZero = Some (JNum 0)"
| "JSON_stringify (VStr s) = Some (JStr s)"
| "JSON_stringify (VDate t) = Some (JStr t)"
| "JSON_stringify (VArr xs) = Some (JArr (stringify_elements xs))"
| "JSON_stringify (VObj ps) = Some (JObj (stringify_properties ps))"
| "stringify_elements [] = []"
| "stringify_elements (x # xs) =
     (case JSON_stringify x of None \<Rightarrow> JNull | Some j \<Rightarrow> j) # stringify_elements xs"
| "stringify_properties [] = []"
| "stringify_properties (p # ps) =
     (case JSON_stringify (snd p) of
        None \<Rightarrow> stringify_properties ps
      | Some j \<Rightarrow> (fst p, j) # stringify_properties ps)"

text \<open>\<open>JSON.parse(text)\<close>, on the texts that \<open>JSON.stringify\<close> writes.\<close>

fun JSON_parse :: "json \<Rightarrow> js_value"
  and parse_elements :: "json list \<Rightarrow> js_value list"
  and parse_properties :: "(string \<times> json) list \<Rightarrow> (string \<times> js_value) list" where
  "JSON_parse JNull = VNull"
| "JSON_parse (JBool b) = VBool b"
| "JSON_parse (JNum x) = VNum x"
| "JSON_parse (JStr s) = VStr s"
| "JSON_parse (JArr js) = VArr (parse_elements js)"
| "JSON_parse (JObj ps) = VObj (parse_properties ps)"
| "parse_elements [] = []"
| "parse_elements (j # js) = JSON_parse j # parse_elements js"
| "parse_properties [] = []"
| "parse_properties (p # ps) = (fst p, JSON_parse (snd p)) # parse_properties ps"

text \<open>
  What reading gives for the property of a stored object that was written with the
  value \<open>v\<close>: the decoding of its text, or \<open>undefined\<close> when the property was left out.
\<close>

definition through_json :: "js_value \<Rightarrow> js_value" where
  "through_json v = (case JSON_stringify v of None \<Rightarrow> VUndefined | Some text \<Rightarrow> JSON_parse text)"

text \<open>
  The payload as the store gives it back. The fields of \<open>meta\<close> are strings, written
  and read as they are.
\<close>

definition as_stored :: "meta_payload \<Rightarrow> meta_payload" where
  "as_stored p = p\<lparr>items := through_json (items p),
                    attachments := through_json (attachments p),
                    clauses := through_json (clauses p)\<rparr>"

text \<open>
  The JSON values: \<open>null\<close>, booleans, finite numbers other than \<open>-0\<close>, strings, and the
  arrays and objects made of JSON values.
\<close>

fun is_json :: "js_value \<Rightarrow> bool"
  and are_json :: "js_value list \<Rightarrow> bool"
  and properties_json :: "(string \<times> js_value) list \<Rightarrow> bool" where
  "is_json VUndefined = False"
| "is_json VNull = True"
| "is_json (VBool b) = True"
| "is_json (VNum x) = True"
| "is_json VNaN = False"
| "is_json VInfinity = False"
| "is_json VNegInfinity = False"
| "is_json VNegZero = False"
| "is_json (VStr s) = True"
| "is_json (VDate t) = False"
| "is_json (VArr xs) = are_json xs"
| "is_json (VObj ps) = properties_json ps"
| "are_json [] = True"
| "are_json (x # xs) = (is_json x \<and> are_json xs)"
| "properties_json [] = True"
| "properties_json (p # ps) = (is_json (snd p) \<and> properties_json ps)"

text \<open>A payload whose three free parts are JSON values.\<close>

definition json_payload :: "meta_payload \<Rightarrow> bool" where
  "json_payload p = (is_json (items p) \<and> is_json (attachments p) \<and> is_json (clauses p))"

section \<open>Session manager\<close>

definition onAuthStateChange :: "nat \<Rightarrow> state \<Rightarrow> state" where
  "onAuthStateChange fn st = st\<lparr>authListeners := authListeners st @ [fn]\<rparr>"

text \<open>signUp returns \<open>{ error }\<close> (\<open>Inl\<close>) or \<open>{ data: user, error: null }\<close> (\<open>Inr\<close>).\<close>

definition signUp :: "string \<Rightarrow> string \<Rightarrow> string \<Rightarrow> (nat \<Rightarrow> nat) \<Rightarrow> state
    \<Rightarrow> (auth_error + user) outcome \<times> state" where
  "signUp email password displayName rnd st =
     (if supa st then (Delegated, st)
      else
        let users = po_users st in
        if list_ex (\<lambda>u. u_email u = email) users then (Returned (Inl EmailInUse), st)
        else
          let ident = uuidv4 rnd;
              usr = \<lparr>u_id = ident, u_email = email, u_password = password,
                      u_displayName = js_or displayName email\<rparr>
          in (Returned (Inr usr),
              fire_listeners
                (st\<lparr>po_users := users @ [usr], currentUser := Some usr,
                    po_current_uid := Some ident\<rparr>)))"

definition signIn :: "string \<Rightarrow> string \<Rightarrow> (nat \<Rightarrow> nat) \<Rightarrow> state
    \<Rightarrow> (auth_error + user) outcome \<times> state" where
  "signIn email password rnd st =
     (if email = ''guest'' \<and> password = ''guest'' then
        (let users = po_users st in
         case find (\<lambda>u. u_email u = ''guest'') users of
           None \<Rightarrow>
             let guestUser = \<lparr>u_id = uuidv4 rnd, u_email = ''guest'', u_password = ''guest'',
                               u_displayName = ''Guest''\<rparr>
             in (Returned (Inr guestUser),
                 fire_listeners
                   (st\<lparr>po_users := users @ [guestUser], currentUser := Some guestUser,
                       po_current_uid := Some (u_id guestUser)\<rparr>))
         | Some found \<Rightarrow>
             let guestUser = found\<lparr>u_password := ''guest''\<rparr>
             in (Returned (Inr guestUser),
                 fire_listeners
                   (st\<lparr>po_users := update_first (\<lambda>u. u_email u = ''guest'')
                                     (\<lambda>u. u\<lparr>u_password := ''guest''\<rparr>) users,
                       currentUser := Some guestUser,
                       po_current_uid := Some (u_id guestUser)\<rparr>)))
      else if supa st then (Delegated, st)
      else
        (case find (\<lambda>u. u_email u = email \<and> u_password u = password) (po_users st) of
           None \<Rightarrow> (Returned (Inl InvalidLogin), st)
         | Some usr \<Rightarrow>
             (Returned (Inr usr),
              fire_listeners (st\<lparr>currentUser := Some usr, po_current_uid := Some (u_id usr)\<rparr>))))"

section \<open>Record store\<close>

text \<open>
  savePoRecord. The arguments \<open>t_created\<close> and \<open>t_updated\<close> are the texts of the two
  \<open>new Date().toISOString()\<close>, \<open>rnd\<close> the draws of the one \<open>uuidv4()\<close>. The object
  returned is \<open>record\<close>, with the payload as the caller gave it; the list written with
  \<open>JSON.stringify(records)\<close> gives back, when it is read, the record \<open>stored\<close>.
\<close>

definition new_record :: "user \<Rightarrow> meta_payload \<Rightarrow> (nat \<Rightarrow> nat) \<Rightarrow> string \<Rightarrow> string \<Rightarrow> po_record" where
  "new_record cu p rnd t_created t_updated =
     \<lparr>r_id = uuidv4 rnd,
      owner_uid = id_of cu,
      created_at = t_created,
      updated_at = t_updated,
      status = ''pending'',
      title = js_or (get_field (meta p) ''subject'') ''PO'',
      po_number = js_or (get_field (meta p) ''poNumber'') [],
      summary = js_or (get_field (meta p) ''subject'') [] @ '' - '' @
                js_or (get_field (meta p) ''amount'') [] @ '' '' @
                js_or (get_field (meta p) ''currencyFa'') [],
      meta_json = p,
      assignees = [],
      fileBase64 = None\<rparr>"

definition savePoRecord :: "meta_payload \<Rightarrow> file_blob \<Rightarrow> (nat \<Rightarrow> nat) \<Rightarrow> string \<Rightarrow> string
    \<Rightarrow> state \<Rightarrow> po_record outcome \<times> state" where
  "savePoRecord p fileBlob rnd t_created t_updated st =
     (case currentUser st of
        None \<Rightarrow> (Threw AuthRequired, st)
      | Some cu \<Rightarrow>
          let record = new_record cu p rnd t_created t_updated in
          if supa st then (Delegated, st)
          else
            (case fileBlob of
               UnreadableBlob \<Rightarrow> (Threw FileReadError, st)
             | _ \<Rightarrow>
                 let record = record\<lparr>fileBase64 :=
                       (case fileBlob of Blob b \<Rightarrow> Some b | _ \<Rightarrow> None)\<rparr>;
                     stored = record\<lparr>meta_json := as_stored (meta_json record)\<rparr>
                 in (Returned record, st\<lparr>po_records := po_records st @ [stored]\<rparr>)))"

definition fetchMyRecords :: "(string \<Rightarrow> string \<Rightarrow> int) \<Rightarrow> state \<Rightarrow> po_record list outcome" where
  "fetchMyRecords lc st =
     (case currentUser st of
        None \<Rightarrow> Returned []
      | Some cu \<Rightarrow>
          if supa st then Delegated
          else
            (case sort_by (cmp_updated lc)
                    (filter (\<lambda>r. owner_uid r = Some (u_id cu)) (po_records st)) of
               Inl e \<Rightarrow> Threw e
             | Inr rs \<Rightarrow> Returned rs))"

definition fetchAssignedRecords :: "state \<Rightarrow> po_record list outcome" where
  "fetchAssignedRecords st =
     (case currentUser st of
        None \<Rightarrow> Returned []
      | Some cu \<Rightarrow>
          if supa st then Delegated
          else Returned (filter (\<lambda>r. u_id cu \<in> set (assignees r) \<and> owner_uid r \<noteq> Some (u_id cu))
                           (po_records st)))"

text \<open>
  updateRecordStatus returns the record found (\<open>Some\<close>) or \<open>undefined\<close> (\<open>None\<close>).
  \<open>t_updated\<close> and \<open>t_notif\<close> are the texts of the two dates, \<open>rnd\<close> the draws of the
  notification's id.
\<close>

definition updateRecordStatus :: "string \<Rightarrow> string \<Rightarrow> (nat \<Rightarrow> nat) \<Rightarrow> string \<Rightarrow> string
    \<Rightarrow> state \<Rightarrow> po_record option outcome \<times> state" where
  "updateRecordStatus ident new_status rnd t_updated t_notif st =
     (case currentUser st of
        None \<Rightarrow> (Threw AuthRequired, st)
      | Some cu \<Rightarrow>
          if supa st then (Delegated, st)
          else
            (case find (\<lambda>r. r_id r = ident) (po_records st) of
               None \<Rightarrow> (Returned None, st)
             | Some found \<Rightarrow>
                 let change = (\<lambda>r. r\<lparr>status := new_status, updated_at := t_updated\<rparr>);
                     rec = change found;
                     st1 = st\<lparr>po_records := update_first (\<lambda>r. r_id r = ident) change (po_records st)\<rparr>
                 in (case owner_uid rec of
                       None \<Rightarrow> (Returned (Some rec), st1)
                     | Some owner \<Rightarrow>
                         if owner \<noteq> [] \<and> owner \<noteq> u_id cu then
                           (Returned (Some rec),
                            st1\<lparr>po_notifications := po_notifications st1 @
                              [\<lparr>n_id = uuidv4 rnd, to_uid = owner, from_uid = u_id cu,
                                n_type = ''review_feedback'', po_id = ident,
                                n_created_at = t_notif, n_read = False,
                                n_payload = [(''status'', new_status)]\<rparr>]\<rparr>)
                         else (Returned (Some rec), st1))))"

text \<open>addAssignee returns \<open>{ success: true }\<close>, the unit value here.\<close>

definition addAssignee :: "string \<Rightarrow> string \<Rightarrow> (nat \<Rightarrow> nat) \<Rightarrow> string \<Rightarrow> string
    \<Rightarrow> state \<Rightarrow> unit outcome \<times> state" where
  "addAssignee recordId email rnd t_updated t_notif st =
     (case currentUser st of
        None \<Rightarrow> (Threw AuthRequired, st)
      | Some cu \<Rightarrow>
          if supa st then (Delegated, st)
          else
            (case find (\<lambda>u. u_email u = email) (po_users st) of
               None \<Rightarrow> (Threw UserNotFound, st)
             | Some assignee \<Rightarrow>
                 (case find (\<lambda>r. r_id r = recordId) (po_records st) of
                    None \<Rightarrow> (Threw RecordNotFound, st)
                  | Some found \<Rightarrow>
                      let change = (\<lambda>r. r\<lparr>assignees := array_from_set (assignees r @ [u_id assignee]),
                                           status := ''in_review'',
                                           updated_at := t_updated\<rparr>)
                      in (Returned (),
                          st\<lparr>po_records := update_first (\<lambda>r. r_id r = recordId) change (po_records st),
                             po_notifications := po_notifications st @
                               [\<lparr>n_id = uuidv4 rnd, to_uid = u_id assignee, from_uid = u_id cu,
                                 n_type = ''review_request'', po_id = recordId,
                                 n_created_at = t_notif, n_read = False,
                                 n_payload = []\<rparr>]\<rparr>))))"

section \<open>Notification store\<close>

definition markNotificationRead :: "string \<Rightarrow> state \<Rightarrow> unit outcome \<times> state" where
  "markNotificationRead ident st =
     (case currentUser st of
        None \<Rightarrow> (Returned (), st)
      | Some cu \<Rightarrow>
          if supa st then (Delegated, st)
          else (Returned (),
                st\<lparr>po_notifications := update_first (\<lambda>n. n_id n = ident) (\<lambda>n. n\<lparr>n_read := True\<rparr>)
                                         (po_notifications st)\<rparr>))"

section \<open>Sequences of calls\<close>

text \<open>
  A call of one of the three operations that change a record, with its arguments, and a
  sequence of such calls run from a state (an operation that throws leaves the state as
  it was).
\<close>

datatype op =
    Save meta_payload file_blob "nat \<Rightarrow> nat" string string
  | Add string string "nat \<Rightarrow> nat" string string
  | Upd string string "nat \<Rightarrow> nat" string string

fun apply_op :: "op \<Rightarrow> state \<Rightarrow> state" where
  "apply_op (Save p fileBlob rnd t_created t_updated) st =
     snd (savePoRecord p fileBlob rnd t_created t_updated st)"
| "apply_op (Add recordId email rnd t_updated t_notif) st =
     snd (addAssignee recordId email rnd t_updated t_notif st)"
| "apply_op (Upd ident new_status rnd t_updated t_notif) st =
     snd (updateRecordStatus ident new_status rnd t_updated t_notif st)"

fun run :: "op list \<Rightarrow> state \<Rightarrow> state" where
  "run [] st = st"
| "run (x # xs) st = run xs (apply_op x st)"

text \<open>
  \<open>assigns_owner x st\<close>: the call \<open>x\<close> is an addAssignee whose e-mail resolves, in
  \<open>st\<close>, to the owner of the record it names.
  \<open>leaves_unassigned x st\<close>: the call \<open>x\<close> is an updateRecordStatus that gives a status
  other than \<open>pending\<close> to a record whose list of assignees is empty in \<open>st\<close>.
\<close>

fun assigns_owner :: "op \<Rightarrow> state \<Rightarrow> bool" where
  "assigns_owner (Add recordId email rnd t_updated t_notif) st =
     (case find (\<lambda>u. u_email u = email) (po_users st) of
        None \<Rightarrow> False
      | Some assignee \<Rightarrow>
          (case find (\<lambda>r. r_id r = recordId) (po_records st) of
             None \<Rightarrow> False
           | Some found \<Rightarrow> owner_uid found = Some (u_id assignee)))"
| "assigns_owner _ st = False"

fun leaves_unassigned :: "op \<Rightarrow> state \<Rightarrow> bool" where
  "leaves_unassigned (Upd ident new_status rnd t_updated t_notif) st =
     (case find (\<lambda>r. r_id r = ident) (po_records st) of
        None \<Rightarrow> False
      | Some found \<Rightarrow> assignees found = [] \<and> new_status \<noteq> ''pending'')"
| "leaves_unassigned _ st = False"

text \<open>\<open>never c xs st\<close>: no call of the sequence satisfies \<open>c\<close> in the state it is made in.\<close>

fun never :: "(op \<Rightarrow> state \<Rightarrow> bool) \<Rightarrow> op list \<Rightarrow> state \<Rightarrow> bool" where
  "never c [] st = True"
| "never c (x # xs) st = (\<not> c x st \<and> never c xs (apply_op x st))"

text \<open>
  A sequence of calls \<open>signIn({ email: 'guest', password: 'guest' })\<close>, one per element
  of the list of draws: the result of each call with the state it leaves.
\<close>

fun guest_calls :: "(nat \<Rightarrow> nat) list \<Rightarrow> state \<Rightarrow> ((auth_error + user) outcome \<times> state) list" where
  "guest_calls [] st = []"
| "guest_calls (rnd # rnds) st =
     (let call = signIn ''guest'' ''guest'' rnd st in call # guest_calls rnds (snd call))"

text \<open>
  Two properties of the stored records: no record has its owner among its assignees;
  every record without assignees has the status \<open>pending\<close>.
\<close>

definition owner_apart :: "state \<Rightarrow> bool" where
  "owner_apart st = (\<forall>r\<in>set (po_records st). \<forall>owner. owner_uid r = Some owner \<longrightarrow> owner \<notin> set (assignees r))"

definition empty_pending :: "state \<Rightarrow> bool" where
  "empty_pending st = (\<forall>r\<in>set (po_records st). assignees r = [] \<longrightarrow> status r = ''pending'')"

section \<open>Example states\<close>

definition alice :: user where
  "alice = \<lparr>u_id = ''id-alice'', u_email = ''alice@example.com'', u_password = ''pw-a'',
            u_displayName = ''Alice''\<rparr>"

definition bob :: user where
  "bob = \<lparr>u_id = ''id-bob'', u_email = ''bob@example.com'', u_password = ''pw-b'',
          u_displayName = ''Bob''\<rparr>"

definition zeros :: "nat \<Rightarrow> nat" where
  "zeros k = 0"

definition order_form :: meta_payload where
  "order_form = \<lparr>meta = [(''subject'', ''Pumps''), (''amount'', ''1200'')],
                  items = VArr [VObj [(''name'', VStr ''pump''), (''qty'', VNum 3)]],
                  attachments = VArr [], clauses = VArr [VStr ''net 30'']\<rparr>"


text \<open>Alice signed in on the local backend, two users, two listeners, nothing stored.\<close>

definition empty_store :: state where
  "empty_store = \<lparr>supa = False, currentUser = Some alice, authListeners = [0, 1],
                  listener_log = [], po_users = [alice, bob], po_records = [],
                  po_notifications = [], po_current_uid = Some ''id-alice''\<rparr>"

text \<open>The same after Alice has saved one record.\<close>

definition one_record :: state where
  "one_record = snd (savePoRecord order_form NoBlob zeros ''2024-05-01T10:00:00.000Z''
                       ''2024-05-01T10:00:00.001Z'' empty_store)"

text \<open>The record of \<open>one_record\<close>, and the state with Bob as the current identity.\<close>

definition saved_id :: string where
  "saved_id = ''00000000-0000-4000-8000-000000000000''"

definition saved :: po_record where
  "saved = \<lparr>r_id = saved_id, owner_uid = Some ''id-alice'',
            created_at = ''2024-05-01T10:00:00.000Z'', updated_at = ''2024-05-01T10:00:00.001Z'',
            status = ''pending'', title = ''Pumps'', po_number = [],
            summary = ''Pumps - 1200 '', meta_json = order_form, assignees = [],
            fileBase64 = None\<rparr>"

definition bob_reviews :: state where
  "bob_reviews = one_record\<lparr>currentUser := Some bob, po_current_uid := Some ''id-bob''\<rparr>"

text \<open>Nobody signed in; and Alice signed in while the store holds a notification for Bob.\<close>

definition signed_out :: state where
  "signed_out = empty_store\<lparr>currentUser := None, po_current_uid := None\<rparr>"

definition bobs_note :: notification where
  "bobs_note = \<lparr>n_id = ''note-1'', to_uid = ''id-bob'', from_uid = ''id-alice'',
                n_type = ''review_request'', po_id = saved_id,
                n_created_at = ''2024-05-02T08:00:00.001Z'', n_read = False, n_payload = []\<rparr>"

definition alice_sees_bobs :: state where
  "alice_sees_bobs = empty_store\<lparr>po_notifications := [bobs_note]\<rparr>"

text \<open>Nobody signed in on the remote backend; a second sequence of draws.\<close>

definition remote_signed_out :: state where
  "remote_signed_out = signed_out\<lparr>supa := True\<rparr>"

definition count_up :: "nat \<Rightarrow> nat" where
  "count_up k = k"

text \<open>
  Three sequences of calls from \<open>empty_store\<close>: Alice saves a record, assigns Bob and
  the record is approved; Alice saves a record and assigns herself; Alice saves
  a record and approves it with nobody assigned.
\<close>

definition review_round :: "op list" where
  "review_round =
     [Save order_form NoBlob zeros ''2024-05-01T10:00:00.000Z'' ''2024-05-01T10:00:00.001Z'',
      Add saved_id ''bob@example.com'' zeros ''2024-05-02T08:00:00.000Z'' ''2024-05-02T08:00:00.001Z'',
      Upd saved_id ''approved'' zeros ''2024-05-03T08:00:00.000Z'' ''2024-05-03T08:00:00.001Z'']"

definition self_assign :: "op list" where
  "self_assign =
     [Save order_form NoBlob zeros ''2024-05-01T10:00:00.000Z'' ''2024-05-01T10:00:00.001Z'',
      Add saved_id ''alice@example.com'' zeros ''2024-05-02T08:00:00.000Z'' ''2024-05-02T08:00:00.001Z'']"

definition approve_unassigned :: "op list" where
  "approve_unassigned =
     [Save order_form NoBlob zeros ''2024-05-01T10:00:00.000Z'' ''2024-05-01T10:00:00.001Z'',
      Upd saved_id ''approved'' zeros ''2024-05-03T08:00:00.000Z'' ''2024-05-03T08:00:00.001Z'']"

section \<open>Facts about the helpers\<close>

lemma update_first_none: "find p xs = None \<Longrightarrow> update_first p f xs = xs"
  by (induction xs) (auto split: if_splits)

lemma find_update_first:
  "(\<And>x. p x \<Longrightarrow> p (f x)) \<Longrightarrow> find p (update_first p f xs) = map_option f (find p xs)"
  by (induction xs) auto

lemma set_fold_add:
  "set (fold (\<lambda>x s. if x \<in> set s then s else s @ [x]) xs acc) = set acc \<union> set xs"
  by (induction xs arbitrary: acc) auto

lemma distinct_fold_add:
  "distinct acc \<Longrightarrow> distinct (fold (\<lambda>x s. if x \<in> set s then s else s @ [x]) xs acc)"
  by (induction xs arbitrary: acc) auto

lemma fold_add_distinct:
  "distinct (acc @ xs) \<Longrightarrow> fold (\<lambda>x s. if x \<in> set s then s else s @ [x]) xs acc = acc @ xs"
  by (induction xs arbitrary: acc) auto

lemma set_array_from_set: "set (array_from_set xs) = set xs"
  by (simp add: array_from_set_def set_fold_add)

lemma distinct_array_from_set: "distinct (array_from_set xs)"
  by (simp add: array_from_set_def distinct_fold_add)

lemma array_from_set_distinct: "distinct xs \<Longrightarrow> array_from_set xs = xs"
  using fold_add_distinct [of "[]" xs] by (simp add: array_from_set_def)

lemma array_from_set_again:
  "array_from_set (array_from_set (xs @ [a]) @ [a]) = array_from_set (xs @ [a])"
proof -
  let ?ys = "array_from_set (xs @ [a])"
  have d: "distinct ?ys" by (rule distinct_array_from_set)
  have m: "a \<in> set ?ys" by (simp add: set_array_from_set)
  have "array_from_set (?ys @ [a]) = (if a \<in> set (array_from_set ?ys) then array_from_set ?ys else array_from_set ?ys @ [a])"
    by (simp add: array_from_set_def)
  also have "\<dots> = ?ys" using d m by (simp add: array_from_set_distinct)
  finally show ?thesis .
qed

lemma count_list_distinct: "distinct xs \<Longrightarrow> x \<in> set xs \<Longrightarrow> count_list xs x = 1"
  by (induction xs) (auto simp: count_list_0_iff)

lemma uuidv4_zeros: "uuidv4 zeros = ''00000000-0000-4000-8000-000000000000''"
  by (simp add: uuidv4_def zeros_def hex_digit_def)

lemma parse_stringify_json:
  "is_json v \<Longrightarrow> \<exists>j. JSON_stringify v = Some j \<and> JSON_parse j = v"
  "are_json xs \<Longrightarrow> parse_elements (stringify_elements xs) = xs"
  "properties_json ps \<Longrightarrow> parse_properties (stringify_properties ps) = ps"
  by (induction v and xs and ps rule: is_json_are_json_properties_json.induct) auto


lemma through_json_json: "is_json v \<Longrightarrow> through_json v = v"
  using parse_stringify_json(1) [of v] by (auto simp add: through_json_def)


lemma as_stored_json: "json_payload p \<Longrightarrow> as_stored p = p"
  by (simp add: json_payload_def as_stored_def through_json_json)

lemma as_stored_order_form: "as_stored order_form = order_form"
  by (rule as_stored_json) (simp add: json_payload_def order_form_def)

lemma one_record_eq: "one_record = empty_store\<lparr>po_records := [saved]\<rparr>"
  by (simp add: one_record_def savePoRecord_def new_record_def empty_store_def alice_def
      id_of_def uuidv4_zeros saved_def saved_id_def js_or_def get_field_def Let_def
      as_stored_order_form)
    (simp add: order_form_def)

lemma bob_reviews_eq:
  "bob_reviews = empty_store\<lparr>currentUser := Some bob, po_records := [saved], po_current_uid := Some ''id-bob''\<rparr>"
  by (simp add: bob_reviews_def one_record_eq empty_store_def)

lemma insert_by_updated:
  "\<forall>y\<in>set ys. updated_at y \<noteq> [] \<Longrightarrow>
   \<exists>zs. insert_by (cmp_updated lc) x ys = Inr zs \<and> set zs = insert x (set ys)"
proof (induction ys)
  case Nil
  then show ?case by simp
next
  case (Cons y ys)
  then obtain zs where "insert_by (cmp_updated lc) x ys = Inr zs" "set zs = insert x (set ys)"
    by auto
  moreover from Cons.prems obtain v where "cmp_updated lc x y = Inr v"
    by (simp add: cmp_updated_def)
  ultimately show ?case
    by (cases "v \<le> 0") auto
qed

lemma sort_by_updated:
  "\<forall>y\<in>set xs. updated_at y \<noteq> [] \<Longrightarrow>
   \<exists>zs. sort_by (cmp_updated lc) xs = Inr zs \<and> set zs = set xs"
proof (induction xs)
  case Nil
  then show ?case by simp
next
  case (Cons x xs)
  then obtain ys where ys: "sort_by (cmp_updated lc) xs = Inr ys" "set ys = set xs"
    by auto
  with Cons.prems have "\<forall>y\<in>set ys. updated_at y \<noteq> []" by simp
  from insert_by_updated [OF this, of lc x] ys show ?case by auto
qed

lemma fetchMyRecords_set:
  assumes "\<not> supa st" and "currentUser st = Some cu"
    and "\<forall>r\<in>set (po_records st). updated_at r \<noteq> []"
  shows "\<exists>rs. fetchMyRecords lc st = Returned rs \<and>
              set rs = {r \<in> set (po_records st). owner_uid r = Some (u_id cu)}"
proof -
  let ?mine = "filter (\<lambda>r. owner_uid r = Some (u_id cu)) (po_records st)"
  from assms(3) have "\<forall>r\<in>set ?mine. updated_at r \<noteq> []" by simp
  from sort_by_updated [OF this, of lc] obtain zs
    where "sort_by (cmp_updated lc) ?mine = Inr zs" "set zs = set ?mine" by auto
  with assms(1,2) show ?thesis by (auto simp add: fetchMyRecords_def)
qed

lemma find_in_set: "find p xs = Some x \<Longrightarrow> x \<in> set xs \<and> p x"
  by (induction xs) (auto split: if_splits)

lemma update_first_fixed: "find p xs = Some x \<Longrightarrow> f x = x \<Longrightarrow> update_first p f xs = xs"
  by (induction xs) (auto split: if_splits)

lemma find_snoc: "find p (xs @ [y]) = (case find p xs of None \<Rightarrow> (if p y then Some y else None) | Some x \<Rightarrow> Some x)"
  by (induction xs) auto

lemma set_update_first:
  "r \<in> set (update_first p f xs) \<Longrightarrow> r \<in> set xs \<or> (\<exists>x. find p xs = Some x \<and> r = f x)"
  by (induction xs) (auto split: if_splits)

section \<open>updateRecordStatus on an unknown id\<close>

text \<open>
  C10: in the local backend, with a current identity, updateRecordStatus on an id that
  no stored record has returns \<open>undefined\<close> without an error and leaves the state, so
  the records and the notifications, as it was.
\<close>

theorem updateRecordStatus_unknown_id:
  assumes "\<not> supa st" and "currentUser st = Some cu"
    and "find (\<lambda>r. r_id r = ident) (po_records st) = None"
  shows "updateRecordStatus ident new_status rnd t_updated t_notif st = (Returned None, st)"
  using assms by (simp add: updateRecordStatus_def)

theorem updateRecordStatus_unknown_id_witness:
  "\<not> supa empty_store \<and> currentUser empty_store = Some alice \<and>
   find (\<lambda>r. r_id r = ''no-such-id'') (po_records empty_store) = None \<and>
   updateRecordStatus ''no-such-id'' ''approved'' zeros ''2024-05-02T08:00:00.000Z''
     ''2024-05-02T08:00:00.001Z'' empty_store = (Returned None, empty_store)"
  using updateRecordStatus_unknown_id [of empty_store alice "''no-such-id''" "''approved''" zeros
      "''2024-05-02T08:00:00.000Z''" "''2024-05-02T08:00:00.001Z''"]
  by (simp add: empty_store_def)

section \<open>addAssignee\<close>

text \<open>
  C1: in the local backend, for every record found under the id, every current identity
  and every e-mail that resolves to a user, a call of addAssignee returns normally,
  leaves the record with status \<open>in_review\<close> whatever its status was, with the
  assignee's id exactly once among its assignees, and appends one \<open>review_request\<close>
  notification addressed to the assignee; a second call with the same e-mail leaves the
  assignees as they are after the first and appends one more such notification.
\<close>

theorem addAssignee_twice:
  assumes "\<not> supa st" and "currentUser st = Some cu"
    and "find (\<lambda>u. u_email u = email) (po_users st) = Some a"
    and "find (\<lambda>r. r_id r = recordId) (po_records st) = Some r"
  shows "let (res1, st1) = addAssignee recordId email rnd1 t1 t1' st;
             (res2, st2) = addAssignee recordId email rnd2 t2 t2' st1;
             n1 = \<lparr>n_id = uuidv4 rnd1, to_uid = u_id a, from_uid = u_id cu,
                    n_type = ''review_request'', po_id = recordId, n_created_at = t1',
                    n_read = False, n_payload = []\<rparr>;
             n2 = \<lparr>n_id = uuidv4 rnd2, to_uid = u_id a, from_uid = u_id cu,
                    n_type = ''review_request'', po_id = recordId, n_created_at = t2',
                    n_read = False, n_payload = []\<rparr>;
             r1 = r\<lparr>assignees := array_from_set (assignees r @ [u_id a]),
                     status := ''in_review'', updated_at := t1\<rparr>
         in res1 = Returned () \<and> res2 = Returned () \<and>
            find (\<lambda>r. r_id r = recordId) (po_records st1) = Some r1 \<and>
            find (\<lambda>r. r_id r = recordId) (po_records st2) = Some (r1\<lparr>updated_at := t2\<rparr>) \<and>
            set (assignees r1) = insert (u_id a) (set (assignees r)) \<and>
            count_list (assignees r1) (u_id a) = 1 \<and>
            po_notifications st1 = po_notifications st @ [n1] \<and>
            po_notifications st2 = po_notifications st @ [n1, n2]"
proof -
  let ?ch1 = "\<lambda>r. r\<lparr>assignees := array_from_set (assignees r @ [u_id a]),
                     status := ''in_review'', updated_at := t1\<rparr>"
  obtain st1 where first: "addAssignee recordId email rnd1 t1 t1' st = (Returned (), st1)"
    using assms by (simp add: addAssignee_def)
  have f1: "find (\<lambda>r. r_id r = recordId) (po_records st1) = Some (?ch1 r)"
    using assms first by (auto simp add: addAssignee_def find_update_first)
  have u1: "po_users st1 = po_users st" "currentUser st1 = currentUser st" "supa st1 = supa st"
    using assms first by (auto simp add: addAssignee_def)
  have c: "count_list (array_from_set (assignees r @ [u_id a])) (u_id a) = 1"
    by (rule count_list_distinct) (simp_all add: distinct_array_from_set set_array_from_set)
  have s: "set (array_from_set (assignees r @ [u_id a])) = insert (u_id a) (set (assignees r))"
    by (simp add: set_array_from_set)
  have n1: "po_notifications st1 = po_notifications st @
      [\<lparr>n_id = uuidv4 rnd1, to_uid = u_id a, from_uid = u_id cu,
        n_type = ''review_request'', po_id = recordId, n_created_at = t1',
        n_read = False, n_payload = []\<rparr>]"
    using assms first by (auto simp add: addAssignee_def)
  obtain st2 where second: "addAssignee recordId email rnd2 t2 t2' st1 = (Returned (), st2)"
    using assms f1 u1 by (simp add: addAssignee_def)
  have n2: "po_notifications st2 = po_notifications st1 @
      [\<lparr>n_id = uuidv4 rnd2, to_uid = u_id a, from_uid = u_id cu,
        n_type = ''review_request'', po_id = recordId, n_created_at = t2',
        n_read = False, n_payload = []\<rparr>]"
    using assms f1 u1 second by (auto simp add: addAssignee_def)
  have f2: "find (\<lambda>r. r_id r = recordId) (po_records st2) = Some ((?ch1 r)\<lparr>updated_at := t2\<rparr>)"
    using assms f1 u1 second
    by (auto simp add: addAssignee_def find_update_first array_from_set_again)
  show ?thesis
    using first second f1 f2 c s n1 n2 by (simp add: Let_def)
qed


theorem addAssignee_twice_witness:
  "\<not> supa one_record \<and> currentUser one_record = Some alice \<and>
   find (\<lambda>u. u_email u = ''bob@example.com'') (po_users one_record) = Some bob \<and>
   find (\<lambda>r. r_id r = saved_id) (po_records one_record) = Some saved \<and>
   (let (res1, st1) = addAssignee saved_id ''bob@example.com'' zeros ''2024-05-02T08:00:00.000Z''
                        ''2024-05-02T08:00:00.001Z'' one_record;
        (res2, st2) = addAssignee saved_id ''bob@example.com'' zeros ''2024-05-03T08:00:00.000Z''
                        ''2024-05-03T08:00:00.001Z'' st1
    in res1 = Returned () \<and> res2 = Returned () \<and>
       map assignees (po_records st1) = [[''id-bob'']] \<and>
       map assignees (po_records st2) = [[''id-bob'']] \<and>
       map status (po_records st2) = [''in_review''] \<and>
       map to_uid (po_notifications st1) = [''id-bob''] \<and>
       map to_uid (po_notifications st2) = [''id-bob'', ''id-bob''] \<and>
       map n_type (po_notifications st2) = [''review_request'', ''review_request''])"
  using addAssignee_twice [of one_record alice "''bob@example.com''" bob saved_id saved
      zeros "''2024-05-02T08:00:00.000Z''" "''2024-05-02T08:00:00.001Z''"
      zeros "''2024-05-03T08:00:00.000Z''" "''2024-05-03T08:00:00.001Z''"]
  by (simp add: one_record_eq empty_store_def alice_def bob_def saved_def saved_id_def
      addAssignee_def array_from_set_def)

section \<open>updateRecordStatus\<close>

text \<open>
  C2: in the local backend, for every record found under the id, with an owner, and
  every status value, updateRecordStatus gives the record that status, with no look at
  the status it had, and the new \<open>updated_at\<close>; it appends one \<open>review_feedback\<close>
  notification addressed to the owner, with the new status as payload, when the current
  identity is not the owner, and none when it is.
\<close>

theorem updateRecordStatus_applies:
  assumes "\<not> supa st" and "currentUser st = Some cu"
    and "find (\<lambda>r. r_id r = ident) (po_records st) = Some r"
    and "owner_uid r = Some owner" and "owner \<noteq> []"
  shows "let (res, st') = updateRecordStatus ident new_status rnd t_updated t_notif st;
             r' = r\<lparr>status := new_status, updated_at := t_updated\<rparr>;
             n = \<lparr>n_id = uuidv4 rnd, to_uid = owner, from_uid = u_id cu,
                   n_type = ''review_feedback'', po_id = ident, n_created_at = t_notif,
                   n_read = False, n_payload = [(''status'', new_status)]\<rparr>
         in res = Returned (Some r') \<and>
            po_records st' = update_first (\<lambda>r. r_id r = ident)
                               (\<lambda>r. r\<lparr>status := new_status, updated_at := t_updated\<rparr>) (po_records st) \<and>
            find (\<lambda>r. r_id r = ident) (po_records st') = Some r' \<and>
            (u_id cu \<noteq> owner \<longrightarrow> po_notifications st' = po_notifications st @ [n]) \<and>
            (u_id cu = owner \<longrightarrow> po_notifications st' = po_notifications st)"
  using assms by (auto simp add: updateRecordStatus_def Let_def find_update_first)

theorem updateRecordStatus_applies_witness:
  "\<not> supa bob_reviews \<and> currentUser bob_reviews = Some bob \<and>
   find (\<lambda>r. r_id r = saved_id) (po_records bob_reviews) = Some saved \<and>
   owner_uid saved = Some ''id-alice'' \<and> ''id-alice'' \<noteq> [] \<and> u_id bob \<noteq> ''id-alice'' \<and>
   (let (res, st') = updateRecordStatus saved_id ''finalized'' zeros ''2024-05-02T08:00:00.000Z''
                       ''2024-05-02T08:00:00.001Z'' bob_reviews
    in res = Returned (Some (saved\<lparr>status := ''finalized'', updated_at := ''2024-05-02T08:00:00.000Z''\<rparr>)) \<and>
       map status (po_records st') = [''finalized''] \<and>
       map updated_at (po_records st') = [''2024-05-02T08:00:00.000Z''] \<and>
       po_notifications st' =
         [\<lparr>n_id = saved_id, to_uid = ''id-alice'', from_uid = ''id-bob'',
           n_type = ''review_feedback'', po_id = saved_id,
           n_created_at = ''2024-05-02T08:00:00.001Z'', n_read = False,
           n_payload = [(''status'', ''finalized'')]\<rparr>]) \<and>
   \<not> supa one_record \<and> currentUser one_record = Some alice \<and>
   find (\<lambda>r. r_id r = saved_id) (po_records one_record) = Some saved \<and> u_id alice = ''id-alice'' \<and>
   (let (res, st') = updateRecordStatus saved_id ''canceled'' zeros ''2024-05-02T08:00:00.000Z''
                       ''2024-05-02T08:00:00.001Z'' one_record
    in res = Returned (Some (saved\<lparr>status := ''canceled'', updated_at := ''2024-05-02T08:00:00.000Z''\<rparr>)) \<and>
       map status (po_records st') = [''canceled''] \<and>
       po_notifications st' = [])"
  using updateRecordStatus_applies [of bob_reviews bob saved_id saved "''id-alice''" "''finalized''"
      zeros "''2024-05-02T08:00:00.000Z''" "''2024-05-02T08:00:00.001Z''"]
    updateRecordStatus_applies [of one_record alice saved_id saved "''id-alice''" "''canceled''"
      zeros "''2024-05-02T08:00:00.000Z''" "''2024-05-02T08:00:00.001Z''"]
  by (auto simp add: bob_reviews_eq one_record_eq empty_store_def alice_def bob_def saved_def
      saved_id_def uuidv4_zeros Let_def split: prod.splits)

section \<open>Calls without a current identity\<close>

text \<open>
  C5, as amended: when no current identity is set, savePoRecord, updateRecordStatus and
  addAssignee throw the sign-in error and change nothing, on either backend, while
  fetchMyRecords and fetchAssignedRecords return the empty list (\<open>if (!currentUser)
  return []\<close>) and do not throw.
\<close>

theorem no_identity:
  assumes "currentUser st = None"
  shows "savePoRecord p fileBlob rnd t_created t_updated st = (Threw AuthRequired, st) \<and>
         updateRecordStatus ident new_status rnd t_updated t_notif st = (Threw AuthRequired, st) \<and>
         addAssignee recordId email rnd t_updated t_notif st = (Threw AuthRequired, st) \<and>
         fetchMyRecords lc st = Returned [] \<and>
         fetchAssignedRecords st = Returned []"
  using assms
  by (simp add: savePoRecord_def updateRecordStatus_def addAssignee_def fetchMyRecords_def
      fetchAssignedRecords_def)

theorem no_identity_witness:
  "currentUser signed_out = None \<and>
   savePoRecord order_form NoBlob zeros ''2024-05-01T10:00:00.000Z'' ''2024-05-01T10:00:00.001Z''
     signed_out = (Threw AuthRequired, signed_out) \<and>
   updateRecordStatus saved_id ''approved'' zeros ''2024-05-01T10:00:00.001Z''
     ''2024-05-01T10:00:00.002Z'' signed_out = (Threw AuthRequired, signed_out) \<and>
   addAssignee saved_id ''bob@example.com'' zeros ''2024-05-01T10:00:00.001Z''
     ''2024-05-01T10:00:00.002Z'' signed_out = (Threw AuthRequired, signed_out) \<and>
   fetchMyRecords (\<lambda>a b. 0) signed_out = Returned [] \<and>
   fetchAssignedRecords signed_out = Returned []"
  using no_identity [of signed_out order_form NoBlob zeros "''2024-05-01T10:00:00.000Z''"
      "''2024-05-01T10:00:00.001Z''" saved_id "''approved''" "''2024-05-01T10:00:00.002Z''"
      saved_id "''bob@example.com''" "\<lambda>a b. 0"]
  by (simp add: signed_out_def empty_store_def)

text \<open>The claim as stated fails: the two fetch operations do not fail with AuthRequired.\<close>

theorem fetch_without_identity_counterexample:
  "currentUser signed_out = None \<and>
   fetchMyRecords (\<lambda>a b. 0) signed_out = Returned [] \<and>
   fetchMyRecords (\<lambda>a b. 0) signed_out \<noteq> Threw AuthRequired \<and>
   fetchAssignedRecords signed_out = Returned [] \<and>
   fetchAssignedRecords signed_out \<noteq> Threw AuthRequired"
  by (simp add: signed_out_def empty_store_def fetchMyRecords_def fetchAssignedRecords_def)

section \<open>markNotificationRead\<close>

text \<open>
  C7, as amended: in the local backend, with a current identity, markNotificationRead
  changes nothing and returns normally when no notification has the id; otherwise it
  sets the read flag of the first notification with that id, whoever it is addressed to
  (the code does not look at \<open>to_uid\<close>), and leaves the others as they are.
\<close>

theorem markNotificationRead_local:
  assumes "\<not> supa st" and "currentUser st = Some cu"
  shows "(find (\<lambda>n. n_id n = ident) (po_notifications st) = None \<longrightarrow>
            markNotificationRead ident st = (Returned (), st)) \<and>
         (\<forall>n. find (\<lambda>n. n_id n = ident) (po_notifications st) = Some n \<longrightarrow>
            (let (res, st') = markNotificationRead ident st
             in res = Returned () \<and>
                find (\<lambda>n. n_id n = ident) (po_notifications st') = Some (n\<lparr>n_read := True\<rparr>) \<and>
                po_notifications st' =
                  update_first (\<lambda>n. n_id n = ident) (\<lambda>n. n\<lparr>n_read := True\<rparr>) (po_notifications st)))"
  using assms by (simp add: markNotificationRead_def update_first_none find_update_first)

theorem markNotificationRead_local_witness:
  "\<not> supa alice_sees_bobs \<and> currentUser alice_sees_bobs = Some alice \<and>
   find (\<lambda>n. n_id n = ''note-9'') (po_notifications alice_sees_bobs) = None \<and>
   markNotificationRead ''note-9'' alice_sees_bobs = (Returned (), alice_sees_bobs) \<and>
   find (\<lambda>n. n_id n = ''note-1'') (po_notifications alice_sees_bobs) = Some bobs_note \<and>
   (let (res, st') = markNotificationRead ''note-1'' alice_sees_bobs
    in res = Returned () \<and> po_notifications st' = [bobs_note\<lparr>n_read := True\<rparr>])"
  using markNotificationRead_local [of alice_sees_bobs alice "''note-9''"]
    markNotificationRead_local [of alice_sees_bobs alice "''note-1''"]
  by (auto simp add: alice_sees_bobs_def empty_store_def bobs_note_def split: prod.splits)

text \<open>
  The claim as stated fails: Alice marks as read a notification addressed to Bob, and
  the state changes.
\<close>

theorem markNotificationRead_counterexample:
  "\<not> supa alice_sees_bobs \<and> currentUser alice_sees_bobs = Some alice \<and>
   po_notifications alice_sees_bobs = [bobs_note] \<and>
   to_uid bobs_note \<noteq> u_id alice \<and> n_read bobs_note = False \<and>
   markNotificationRead ''note-1'' alice_sees_bobs =
     (Returned (), alice_sees_bobs\<lparr>po_notifications := [bobs_note\<lparr>n_read := True\<rparr>]\<rparr>) \<and>
   snd (markNotificationRead ''note-1'' alice_sees_bobs) \<noteq> alice_sees_bobs"
  by (simp add: alice_sees_bobs_def empty_store_def bobs_note_def alice_def
      markNotificationRead_def)

section \<open>signUp\<close>

text \<open>
  C9: in the local backend, signUp with an e-mail that a stored user has returns the
  error "e-mail already used" and leaves the whole state, so the users and the current
  identity, as it was; with any other e-mail it appends a new user with that e-mail to
  the stored users, makes it the current identity and calls every registered listener,
  in order, with the new user.
\<close>

theorem signUp_local:
  assumes "\<not> supa st"
  shows "(email \<in> u_email ` set (po_users st) \<longrightarrow>
            signUp email password displayName rnd st = (Returned (Inl EmailInUse), st)) \<and>
         (email \<notin> u_email ` set (po_users st) \<longrightarrow>
            (let (res, st') = signUp email password displayName rnd st;
                 usr = \<lparr>u_id = uuidv4 rnd, u_email = email, u_password = password,
                         u_displayName = js_or displayName email\<rparr>
             in res = Returned (Inr usr) \<and>
                po_users st' = po_users st @ [usr] \<and>
                currentUser st' = Some usr \<and>
                po_current_uid st' = Some (u_id usr) \<and>
                listener_log st' = listener_log st @ map (\<lambda>fn. (fn, Some usr)) (authListeners st)))"
  using assms by (auto simp add: signUp_def list_ex_iff Let_def fire_listeners_def)

theorem signUp_local_witness:
  "\<not> supa signed_out \<and>
   ''alice@example.com'' \<in> u_email ` set (po_users signed_out) \<and>
   signUp ''alice@example.com'' ''pw'' ''A'' zeros signed_out = (Returned (Inl EmailInUse), signed_out) \<and>
   ''carol@example.com'' \<notin> u_email ` set (po_users signed_out) \<and>
   (let (res, st') = signUp ''carol@example.com'' ''pw-c'' [] zeros signed_out;
        carol = \<lparr>u_id = saved_id, u_email = ''carol@example.com'', u_password = ''pw-c'',
                  u_displayName = ''carol@example.com''\<rparr>
    in res = Returned (Inr carol) \<and> po_users st' = [alice, bob, carol] \<and>
       currentUser st' = Some carol \<and>
       listener_log st' = [(0, Some carol), (1, Some carol)])"
  using signUp_local [of signed_out "''alice@example.com''" "''pw''" "''A''" zeros]
    signUp_local [of signed_out "''carol@example.com''" "''pw-c''" "[]" zeros]
  by (auto simp add: signed_out_def empty_store_def alice_def bob_def saved_id_def uuidv4_zeros
      js_or_def Let_def split: prod.splits)


section \<open>savePoRecord and the two fetch operations\<close>

text \<open>
  C4: savePoRecord without a current identity throws the sign-in error and writes
  nothing. With a current identity (whose id is not empty), in the local backend and
  when the blob, if any, can be read, it returns the new record and appends it, as the
  store gives it back, to the stored records: a record with the same id, with status
  \<open>pending\<close>, no assignee and the current identity as owner (the record returned
  itself when the payload is made of JSON values); right after, fetchMyRecords called by
  the owner returns a list that holds this stored record, and fetchAssignedRecords
  called by any identity that is not among its assignees returns a list that does not
  hold it. (The timestamps are those of \<open>toISOString\<close>, never empty.)
\<close>

theorem savePoRecord_creates:
  "(currentUser st = None \<longrightarrow>
      savePoRecord p fileBlob rnd t_created t_updated st = (Threw AuthRequired, st)) \<and>
   (currentUser st = Some cu \<and> \<not> supa st \<and> fileBlob \<noteq> UnreadableBlob \<and> u_id cu \<noteq> [] \<and>
    t_updated \<noteq> [] \<and> (\<forall>r\<in>set (po_records st). updated_at r \<noteq> []) \<longrightarrow>
      (let (res, st') = savePoRecord p fileBlob rnd t_created t_updated st;
           created = (new_record cu p rnd t_created t_updated)
                      \<lparr>fileBase64 := (case fileBlob of Blob b \<Rightarrow> Some b | _ \<Rightarrow> None)\<rparr>;
           stored = created\<lparr>meta_json := as_stored p\<rparr>
       in res = Returned created \<and>
          po_records st' = po_records st @ [stored] \<and>
          (json_payload p \<longrightarrow> stored = created) \<and>
          r_id stored = r_id created \<and>
          status created = ''pending'' \<and> assignees created = [] \<and>
          owner_uid created = Some (u_id cu) \<and>
          status stored = ''pending'' \<and> assignees stored = [] \<and>
          owner_uid stored = Some (u_id cu) \<and>
          currentUser st' = Some cu \<and>
          (\<exists>rs. fetchMyRecords lc st' = Returned rs \<and> stored \<in> set rs) \<and>
          (\<forall>v rs. u_id v \<notin> set (assignees stored) \<and>
                  fetchAssignedRecords (st'\<lparr>currentUser := Some v\<rparr>) = Returned rs
                  \<longrightarrow> stored \<notin> set rs)))"
proof (intro conjI impI)
  assume "currentUser st = None"
  then show "savePoRecord p fileBlob rnd t_created t_updated st = (Threw AuthRequired, st)"
    by (simp add: savePoRecord_def)
next
  assume h: "currentUser st = Some cu \<and> \<not> supa st \<and> fileBlob \<noteq> UnreadableBlob \<and> u_id cu \<noteq> [] \<and>
    t_updated \<noteq> [] \<and> (\<forall>r\<in>set (po_records st). updated_at r \<noteq> [])"
  let ?created = "(new_record cu p rnd t_created t_updated)
                      \<lparr>fileBase64 := (case fileBlob of Blob b \<Rightarrow> Some b | _ \<Rightarrow> None)\<rparr>"
  let ?stored = "?created\<lparr>meta_json := as_stored p\<rparr>"
  let ?st' = "st\<lparr>po_records := po_records st @ [?stored]\<rparr>"
  have payload: "meta_json ?created = p"
    by (simp add: new_record_def)
  have save: "savePoRecord p fileBlob rnd t_created t_updated st = (Returned ?created, ?st')"
    using h by (cases fileBlob) (simp_all add: savePoRecord_def Let_def new_record_def)
  have same: "json_payload p \<longrightarrow> ?stored = ?created"
    using payload by (simp add: as_stored_json)
  have fields: "status ?stored = ''pending''" "assignees ?stored = []"
    "owner_uid ?stored = Some (u_id cu)" "updated_at ?stored = t_updated"
    "r_id ?stored = r_id ?created"
    using h by (simp_all add: new_record_def id_of_def)
  have fields': "status ?created = ''pending''" "assignees ?created = []"
    "owner_uid ?created = Some (u_id cu)"
    using h by (simp_all add: new_record_def id_of_def)
  have "\<forall>r\<in>set (po_records ?st'). updated_at r \<noteq> []"
    using h fields(4) by auto
  from fetchMyRecords_set [OF _ _ this, of cu lc] h obtain rs
    where rs: "fetchMyRecords lc ?st' = Returned rs"
      "set rs = {r \<in> set (po_records ?st'). owner_uid r = Some (u_id cu)}"
    by auto
  have mine: "?stored \<in> set rs"
    using rs(2) fields(3) by simp
  have others: "\<forall>v rs. u_id v \<notin> set (assignees ?stored) \<and>
                  fetchAssignedRecords (?st'\<lparr>currentUser := Some v\<rparr>) = Returned rs
                  \<longrightarrow> ?stored \<notin> set rs"
    using h fields(2) by (auto simp add: fetchAssignedRecords_def)
  have st': "po_records ?st' = po_records st @ [?stored]" "currentUser ?st' = Some cu"
    using h by simp_all
  show "let (res, st') = savePoRecord p fileBlob rnd t_created t_updated st;
           created = (new_record cu p rnd t_created t_updated)
                      \<lparr>fileBase64 := (case fileBlob of Blob b \<Rightarrow> Some b | _ \<Rightarrow> None)\<rparr>;
           stored = created\<lparr>meta_json := as_stored p\<rparr>
       in res = Returned created \<and>
          po_records st' = po_records st @ [stored] \<and>
          (json_payload p \<longrightarrow> stored = created) \<and>
          r_id stored = r_id created \<and>
          status created = ''pending'' \<and> assignees created = [] \<and>
          owner_uid created = Some (u_id cu) \<and>
          status stored = ''pending'' \<and> assignees stored = [] \<and>
          owner_uid stored = Some (u_id cu) \<and>
          currentUser st' = Some cu \<and>
          (\<exists>rs. fetchMyRecords lc st' = Returned rs \<and> stored \<in> set rs) \<and>
          (\<forall>v rs. u_id v \<notin> set (assignees stored) \<and>
                  fetchAssignedRecords (st'\<lparr>currentUser := Some v\<rparr>) = Returned rs
                  \<longrightarrow> stored \<notin> set rs)"
    unfolding save Let_def prod.case
    using same fields(1,2,3,5) fields' st' rs(1) mine others
    by (intro conjI) (blast | assumption | rule refl)+
qed

theorem savePoRecord_creates_witness:
  "currentUser signed_out = None \<and>
   savePoRecord order_form NoBlob zeros ''2024-05-01T10:00:00.000Z'' ''2024-05-01T10:00:00.001Z''
     signed_out = (Threw AuthRequired, signed_out) \<and>
   currentUser empty_store = Some alice \<and> \<not> supa empty_store \<and> NoBlob \<noteq> UnreadableBlob \<and>
   u_id alice \<noteq> [] \<and> ''2024-05-01T10:00:00.001Z'' \<noteq> [] \<and>
   list_all (\<lambda>r. updated_at r \<noteq> []) (po_records empty_store) \<and>
   json_payload order_form \<and>
   (let (res, st') = savePoRecord order_form NoBlob zeros ''2024-05-01T10:00:00.000Z''
                       ''2024-05-01T10:00:00.001Z'' empty_store
    in res = Returned saved \<and> po_records st' = [saved] \<and>
       status saved = ''pending'' \<and> assignees saved = [] \<and> owner_uid saved = Some (u_id alice) \<and>
       (\<exists>rs. fetchMyRecords (\<lambda>a b. 0) st' = Returned rs \<and> saved \<in> set rs) \<and>
       (\<forall>rs. fetchAssignedRecords (st'\<lparr>currentUser := Some bob\<rparr>) = Returned rs
             \<longrightarrow> saved \<notin> set rs))"
proof -
  have rec: "(new_record alice order_form zeros ''2024-05-01T10:00:00.000Z''
               ''2024-05-01T10:00:00.001Z'')\<lparr>fileBase64 := None\<rparr> = saved"
    by (simp add: new_record_def alice_def id_of_def uuidv4_zeros saved_def saved_id_def
        order_form_def js_or_def get_field_def)
  have json: "json_payload order_form"
    by (simp add: json_payload_def order_form_def)
  have stored: "saved\<lparr>meta_json := as_stored order_form\<rparr> = saved"
    by (simp add: as_stored_order_form saved_def)
  have empty: "po_records empty_store = []"
    by (simp add: empty_store_def)
  have none: "currentUser signed_out = None"
    by (simp add: signed_out_def)
  have some: "currentUser empty_store = Some alice \<and> \<not> supa empty_store \<and>
      NoBlob \<noteq> UnreadableBlob \<and> u_id alice \<noteq> [] \<and> ''2024-05-01T10:00:00.001Z'' \<noteq> [] \<and>
      (\<forall>r\<in>set (po_records empty_store). updated_at r \<noteq> [])"
    by (simp add: empty_store_def alice_def)
  show ?thesis
    using savePoRecord_creates [of signed_out order_form NoBlob zeros
        "''2024-05-01T10:00:00.000Z''" "''2024-05-01T10:00:00.001Z''" alice "\<lambda>a b. 0"]
      savePoRecord_creates [of empty_store order_form NoBlob zeros
        "''2024-05-01T10:00:00.000Z''" "''2024-05-01T10:00:00.001Z''" alice "\<lambda>a b. 0"]
      none some empty json
    by (auto simp add: rec stored Let_def list_all_iff split: prod.splits)
qed




section \<open>Guest sign-in\<close>

lemma signIn_guest_known:
  assumes "find (\<lambda>u. u_email u = ''guest'') (po_users st) = Some g"
    and "u_password g = ''guest''"
  shows "signIn ''guest'' ''guest'' rnd st =
           (Returned (Inr g),
            fire_listeners (st\<lparr>currentUser := Some g, po_current_uid := Some (u_id g)\<rparr>))"
proof -
  have same: "g\<lparr>u_password := ''guest''\<rparr> = g"
    using assms(2) by simp
  have "update_first (\<lambda>u. u_email u = ''guest'') (\<lambda>u. u\<lparr>u_password := ''guest''\<rparr>) (po_users st)
          = po_users st"
    using assms(1) same by (rule update_first_fixed)
  then show ?thesis
    using assms(1) same by (simp add: signIn_def)
qed

lemma guest_calls_known:
  assumes "find (\<lambda>u. u_email u = ''guest'') (po_users st) = Some g"
    and "u_password g = ''guest''"
  shows "\<forall>(res, st')\<in>set (guest_calls rnds st).
           res = Returned (Inr g) \<and> currentUser st' = Some g \<and> po_users st' = po_users st"
  using assms
proof (induction rnds arbitrary: st)
  case Nil
  then show ?case by simp
next
  case (Cons rnd rnds)
  let ?st1 = "fire_listeners (st\<lparr>currentUser := Some g, po_current_uid := Some (u_id g)\<rparr>)"
  have call: "signIn ''guest'' ''guest'' rnd st = (Returned (Inr g), ?st1)"
    using Cons.prems by (rule signIn_guest_known)
  have users: "po_users ?st1 = po_users st"
    by (simp add: fire_listeners_def)
  have "\<forall>(res, st')\<in>set (guest_calls rnds ?st1).
           res = Returned (Inr g) \<and> currentUser st' = Some g \<and> po_users st' = po_users ?st1"
    using Cons.prems users by (intro Cons.IH) simp_all
  then show ?case
    using call users by (auto simp add: Let_def fire_listeners_def)
qed

text \<open>
  C6: on either backend, \<open>signIn({ email: 'guest', password: 'guest' })\<close> is resolved
  on the stored users: it returns the guest identity with password \<open>guest\<close> and makes
  it the current identity; when no stored user has the e-mail \<open>guest\<close> (first use) the
  identity is created with a new id and appended to the stored users, otherwise the
  first stored user with that e-mail is taken and its stored password set to \<open>guest\<close>.
  Every later call of any sequence of such calls returns this same identity, and the
  stored user with the e-mail \<open>guest\<close> is this identity after each of them.
\<close>

theorem signIn_guest_same_identity:
  "let (res, st1) = signIn ''guest'' ''guest'' rnd st;
       guest = (case find (\<lambda>u. u_email u = ''guest'') (po_users st) of
                  None \<Rightarrow> \<lparr>u_id = uuidv4 rnd, u_email = ''guest'', u_password = ''guest'',
                            u_displayName = ''Guest''\<rparr>
                | Some found \<Rightarrow> found\<lparr>u_password := ''guest''\<rparr>)
   in res = Returned (Inr guest) \<and>
      currentUser st1 = Some guest \<and>
      (find (\<lambda>u. u_email u = ''guest'') (po_users st) = None \<longrightarrow>
         po_users st1 = po_users st @ [guest]) \<and>
      find (\<lambda>u. u_email u = ''guest'') (po_users st1) = Some guest \<and>
      u_password guest = ''guest'' \<and>
      (\<forall>(res', st')\<in>set (guest_calls rnds st1).
         res' = Returned (Inr guest) \<and> currentUser st' = Some guest \<and>
         find (\<lambda>u. u_email u = ''guest'') (po_users st') = Some guest)"
proof (cases "find (\<lambda>u. u_email u = ''guest'') (po_users st)")
  case None
  let ?g = "\<lparr>u_id = uuidv4 rnd, u_email = ''guest'', u_password = ''guest'',
             u_displayName = ''Guest''\<rparr>"
  let ?st1 = "fire_listeners (st\<lparr>po_users := po_users st @ [?g], currentUser := Some ?g,
                                 po_current_uid := Some (u_id ?g)\<rparr>)"
  have call: "signIn ''guest'' ''guest'' rnd st = (Returned (Inr ?g), ?st1)"
    using None by (simp add: signIn_def Let_def)
  have stored: "find (\<lambda>u. u_email u = ''guest'') (po_users ?st1) = Some ?g"
    using None by (simp add: fire_listeners_def find_snoc)
  have later: "\<forall>(res', st')\<in>set (guest_calls rnds ?st1).
      res' = Returned (Inr ?g) \<and> currentUser st' = Some ?g \<and> po_users st' = po_users ?st1"
    using stored by (rule guest_calls_known) simp
  show ?thesis
    unfolding call Let_def prod.case
    using None stored later by (auto simp add: fire_listeners_def)
next
  case (Some found)
  let ?g = "found\<lparr>u_password := ''guest''\<rparr>"
  let ?st1 = "fire_listeners
                (st\<lparr>po_users := update_first (\<lambda>u. u_email u = ''guest'')
                                    (\<lambda>u. u\<lparr>u_password := ''guest''\<rparr>) (po_users st),
                    currentUser := Some ?g, po_current_uid := Some (u_id ?g)\<rparr>)"
  have call: "signIn ''guest'' ''guest'' rnd st = (Returned (Inr ?g), ?st1)"
    using Some by (simp add: signIn_def Let_def)
  have stored: "find (\<lambda>u. u_email u = ''guest'') (po_users ?st1) = Some ?g"
    using Some by (simp add: fire_listeners_def find_update_first)
  have later: "\<forall>(res', st')\<in>set (guest_calls rnds ?st1).
      res' = Returned (Inr ?g) \<and> currentUser st' = Some ?g \<and> po_users st' = po_users ?st1"
    using stored by (rule guest_calls_known) simp
  show ?thesis
    unfolding call Let_def prod.case
    using Some stored later by (auto simp add: fire_listeners_def)
qed


theorem signIn_guest_same_identity_witness:
  "supa remote_signed_out \<and>
   find (\<lambda>u. u_email u = ''guest'') (po_users remote_signed_out) = None \<and>
   (let (res, st1) = signIn ''guest'' ''guest'' zeros remote_signed_out;
        guest = \<lparr>u_id = saved_id, u_email = ''guest'', u_password = ''guest'',
                  u_displayName = ''Guest''\<rparr>
    in res = Returned (Inr guest) \<and> currentUser st1 = Some guest \<and>
       po_users st1 = [alice, bob, guest] \<and>
       map fst (guest_calls [count_up, zeros] st1) = [Returned (Inr guest), Returned (Inr guest)] \<and>
       map (po_users \<circ> snd) (guest_calls [count_up, zeros] st1) =
         [[alice, bob, guest], [alice, bob, guest]])"
  using signIn_guest_same_identity [of zeros remote_signed_out "[count_up, zeros]"]
  by (simp add: remote_signed_out_def signed_out_def empty_store_def alice_def bob_def
      saved_id_def uuidv4_zeros signIn_def fire_listeners_def Let_def)


section \<open>Owner, assignees and status along sequences of calls\<close>

lemma owner_apart_step:
  assumes "owner_apart st" and "\<not> assigns_owner x st"
  shows "owner_apart (apply_op x st)"
proof (cases x)
  case (Save p fileBlob rnd t_created t_updated)
  then show ?thesis
    using assms(1)
    by (auto simp add: owner_apart_def savePoRecord_def new_record_def Let_def
        split: option.splits file_blob.splits)
next
  case (Add recordId email rnd t_updated t_notif)
  show ?thesis
    unfolding owner_apart_def
  proof (intro ballI allI impI)
    fix r owner
    assume r: "r \<in> set (po_records (apply_op x st))" and o: "owner_uid r = Some owner"
    show "owner \<notin> set (assignees r)"
    proof (cases "r \<in> set (po_records st)")
      case True
      with assms(1) o show ?thesis by (auto simp add: owner_apart_def)
    next
      case False
      with r Add obtain cu assignee found where
        a: "find (\<lambda>u. u_email u = email) (po_users st) = Some assignee" and
        f: "find (\<lambda>r. r_id r = recordId) (po_records st) = Some found" and
        r': "r \<in> set (update_first (\<lambda>r. r_id r = recordId)
                (\<lambda>r. r\<lparr>assignees := array_from_set (assignees r @ [u_id assignee]),
                       status := ''in_review'', updated_at := t_updated\<rparr>) (po_records st))"
        by (auto simp add: addAssignee_def split: option.splits if_splits)
      from set_update_first [OF r'] False f
      have req: "r = found\<lparr>assignees := array_from_set (assignees found @ [u_id assignee]),
                          status := ''in_review'', updated_at := t_updated\<rparr>"
        by auto
      from f have "found \<in> set (po_records st)" by (simp add: find_in_set)
      with assms(1) o req have "owner \<notin> set (assignees found)"
        by (auto simp add: owner_apart_def)
      moreover from assms(2) Add a f o req have "owner \<noteq> u_id assignee"
        by auto
      ultimately show ?thesis
        using req by (simp add: set_array_from_set)
    qed
  qed
next
  case (Upd ident new_status rnd t_updated t_notif)
  show ?thesis
    unfolding owner_apart_def
  proof (intro ballI allI impI)
    fix r owner
    assume r: "r \<in> set (po_records (apply_op x st))" and o: "owner_uid r = Some owner"
    show "owner \<notin> set (assignees r)"
    proof (cases "r \<in> set (po_records st)")
      case True
      with assms(1) o show ?thesis by (auto simp add: owner_apart_def)
    next
      case False
      with r Upd obtain found where
        f: "find (\<lambda>r. r_id r = ident) (po_records st) = Some found" and
        r': "r \<in> set (update_first (\<lambda>r. r_id r = ident)
                (\<lambda>r. r\<lparr>status := new_status, updated_at := t_updated\<rparr>) (po_records st))"
        by (auto simp add: updateRecordStatus_def Let_def split: option.splits if_splits)
      from set_update_first [OF r'] False f
      have req: "r = found\<lparr>status := new_status, updated_at := t_updated\<rparr>"
        by auto
      from f have "found \<in> set (po_records st)" by (simp add: find_in_set)
      with assms(1) o req show ?thesis
        by (auto simp add: owner_apart_def)
    qed
  qed
qed

lemma empty_pending_step:
  assumes "empty_pending st" and "\<not> leaves_unassigned x st"
  shows "empty_pending (apply_op x st)"
proof (cases x)
  case (Save p fileBlob rnd t_created t_updated)
  then show ?thesis
    using assms(1)
    by (auto simp add: empty_pending_def savePoRecord_def new_record_def Let_def
        split: option.splits file_blob.splits)
next
  case (Add recordId email rnd t_updated t_notif)
  show ?thesis
    unfolding empty_pending_def
  proof (intro ballI impI)
    fix r
    assume r: "r \<in> set (po_records (apply_op x st))" and e: "assignees r = []"
    show "status r = ''pending''"
    proof (cases "r \<in> set (po_records st)")
      case True
      with assms(1) e show ?thesis by (auto simp add: empty_pending_def)
    next
      case False
      with r Add obtain assignee found where
        a: "find (\<lambda>u. u_email u = email) (po_users st) = Some assignee" and
        f: "find (\<lambda>r. r_id r = recordId) (po_records st) = Some found" and
        r': "r \<in> set (update_first (\<lambda>r. r_id r = recordId)
                (\<lambda>r. r\<lparr>assignees := array_from_set (assignees r @ [u_id assignee]),
                       status := ''in_review'', updated_at := t_updated\<rparr>) (po_records st))"
        by (auto simp add: addAssignee_def split: option.splits if_splits)
      from set_update_first [OF r'] False f
      have "r = found\<lparr>assignees := array_from_set (assignees found @ [u_id assignee]),
                          status := ''in_review'', updated_at := t_updated\<rparr>"
        by auto
      then have "set (assignees r) \<noteq> {}"
        by (simp add: set_array_from_set)
      with e show ?thesis by simp
    qed
  qed
next
  case (Upd ident new_status rnd t_updated t_notif)
  show ?thesis
    unfolding empty_pending_def
  proof (intro ballI impI)
    fix r
    assume r: "r \<in> set (po_records (apply_op x st))" and e: "assignees r = []"
    show "status r = ''pending''"
    proof (cases "r \<in> set (po_records st)")
      case True
      with assms(1) e show ?thesis by (auto simp add: empty_pending_def)
    next
      case False
      with r Upd obtain found where
        f: "find (\<lambda>r. r_id r = ident) (po_records st) = Some found" and
        r': "r \<in> set (update_first (\<lambda>r. r_id r = ident)
                (\<lambda>r. r\<lparr>status := new_status, updated_at := t_updated\<rparr>) (po_records st))"
        by (auto simp add: updateRecordStatus_def Let_def split: option.splits if_splits)
      from set_update_first [OF r'] False f
      have req: "r = found\<lparr>status := new_status, updated_at := t_updated\<rparr>"
        by auto
      with assms(2) Upd f e show ?thesis
        by auto
    qed
  qed
qed

lemma owner_apart_run:
  "owner_apart st \<Longrightarrow> never assigns_owner xs st \<Longrightarrow> owner_apart (run xs st)"
  by (induction xs arbitrary: st) (auto intro: owner_apart_step)

lemma empty_pending_run:
  "empty_pending st \<Longrightarrow> never leaves_unassigned xs st \<Longrightarrow> empty_pending (run xs st)"
  by (induction xs arbitrary: st) (auto intro: empty_pending_step)

lemma run_review_round:
  "po_records (run review_round empty_store) =
     [saved\<lparr>assignees := [''id-bob''], status := ''approved'',
            updated_at := ''2024-05-03T08:00:00.000Z''\<rparr>]"
  by (simp add: review_round_def one_record_def [symmetric])
    (simp add: one_record_eq empty_store_def addAssignee_def updateRecordStatus_def saved_def
      saved_id_def array_from_set_def alice_def bob_def Let_def)

lemma run_self_assign:
  "po_records (run self_assign empty_store) =
     [saved\<lparr>assignees := [''id-alice''], status := ''in_review'',
            updated_at := ''2024-05-02T08:00:00.000Z''\<rparr>]"
  by (simp add: self_assign_def one_record_def [symmetric])
    (simp add: one_record_eq empty_store_def addAssignee_def saved_def saved_id_def
      array_from_set_def alice_def bob_def Let_def)

lemma run_approve_unassigned:
  "po_records (run approve_unassigned empty_store) =
     [saved\<lparr>status := ''approved'', updated_at := ''2024-05-03T08:00:00.000Z''\<rparr>]"
  by (simp add: approve_unassigned_def one_record_def [symmetric])
    (simp add: one_record_eq empty_store_def updateRecordStatus_def saved_def saved_id_def
      alice_def bob_def Let_def)

lemma never_review_round:
  "never assigns_owner review_round empty_store \<and> never leaves_unassigned review_round empty_store"
  by (simp add: review_round_def one_record_def [symmetric])
    (simp add: one_record_eq empty_store_def addAssignee_def updateRecordStatus_def saved_def
      saved_id_def array_from_set_def alice_def bob_def Let_def)

text \<open>
  C3, as amended: along every sequence of calls of savePoRecord, addAssignee and
  updateRecordStatus from a state without records, no record has its owner among its
  assignees as long as no addAssignee is called with an e-mail that resolves to the
  owner of the record it names, and every record without assignees has the status
  \<open>pending\<close> as long as no updateRecordStatus gives another status to a record without
  assignees.
\<close>

theorem records_from_empty_store:
  assumes "po_records st = []"
  shows "(never assigns_owner xs st \<longrightarrow>
            (\<forall>r\<in>set (po_records (run xs st)). \<forall>owner.
                owner_uid r = Some owner \<longrightarrow> owner \<notin> set (assignees r))) \<and>
         (never leaves_unassigned xs st \<longrightarrow>
            (\<forall>r\<in>set (po_records (run xs st)). assignees r = [] \<longrightarrow> status r = ''pending''))"
proof (intro conjI impI)
  assume "never assigns_owner xs st"
  moreover from assms have "owner_apart st" by (simp add: owner_apart_def)
  ultimately have "owner_apart (run xs st)" by (rule owner_apart_run [rotated])
  then show "\<forall>r\<in>set (po_records (run xs st)). \<forall>owner.
                owner_uid r = Some owner \<longrightarrow> owner \<notin> set (assignees r)"
    by (simp add: owner_apart_def)
next
  assume "never leaves_unassigned xs st"
  moreover from assms have "empty_pending st" by (simp add: empty_pending_def)
  ultimately have "empty_pending (run xs st)" by (rule empty_pending_run [rotated])
  then show "\<forall>r\<in>set (po_records (run xs st)). assignees r = [] \<longrightarrow> status r = ''pending''"
    by (simp add: empty_pending_def)
qed


theorem records_from_empty_store_witness:
  "po_records empty_store = [] \<and>
   never assigns_owner review_round empty_store \<and>
   never leaves_unassigned review_round empty_store \<and>
   map owner_uid (po_records (run review_round empty_store)) = [Some ''id-alice''] \<and>
   map assignees (po_records (run review_round empty_store)) = [[''id-bob'']] \<and>
   map status (po_records (run review_round empty_store)) = [''approved'']"
  using records_from_empty_store [of empty_store review_round] never_review_round
  by (simp add: run_review_round saved_def) (simp add: empty_store_def)

text \<open>
  The claim as stated fails on both counts: after Alice has assigned herself the owner
  is among the assignees, and after the approval of a record that nobody is assigned
  to, the list of assignees is empty under the status \<open>approved\<close>.
\<close>

theorem owner_assigned_counterexample:
  "po_records empty_store = [] \<and>
   map owner_uid (po_records (run self_assign empty_store)) = [Some ''id-alice''] \<and>
   map assignees (po_records (run self_assign empty_store)) = [[''id-alice'']] \<and>
   map assignees (po_records (run approve_unassigned empty_store)) = [[]] \<and>
   map status (po_records (run approve_unassigned empty_store)) = [''approved'']"
  by (simp add: run_self_assign run_approve_unassigned saved_def) (simp add: empty_store_def)


end
